theory Spec2Isabelle
  imports Main "HOL-Library.Word"
begin

unbundle bit_operations_syntax

section \<open>Data model of go\_crun.c\<close>

text \<open>
  The helper functions of \<^verbatim>\<open>go_crun.c\<close> are sequential C code around system calls and
  calls into the container engine (libcrun). Each function is embedded as a HOL function
  that takes, besides the C arguments, the outcomes of the calls it makes to the outside
  (system calls, allocator, engine), and returns the C result together with the ordered
  list of effects it performed. C \<^verbatim>\<open>int\<close> values that travel through a pipe byte by byte are
  \<open>32 word\<close>; descriptors, process ids and return codes, on which the code does no
  arithmetic that could overflow, are \<open>int\<close>.
\<close>

type_synonym byte = "8 word"
type_synonym fd = int
type_synonym pid_t = int

text \<open>The object representation of a 4-byte integer depends on the byte order of the machine.\<close>

datatype endian = Little | Big

definition le_bytes :: "32 word \<Rightarrow> byte list" where
  "le_bytes w = [ucast w, ucast (drop_bit 8 w), ucast (drop_bit 16 w), ucast (drop_bit 24 w)]"

fun le_word :: "byte list \<Rightarrow> 32 word" where
  "le_word [] = 0"
| "le_word (b # bs) = ucast b OR push_bit 8 (le_word bs)"

definition int32_bytes :: "endian \<Rightarrow> 32 word \<Rightarrow> byte list" where
  "int32_bytes en w = (case en of Little \<Rightarrow> le_bytes w | Big \<Rightarrow> rev (le_bytes w))"

definition int32_of_bytes :: "endian \<Rightarrow> byte list \<Rightarrow> 32 word" where
  "int32_of_bytes en bs = (case en of Little \<Rightarrow> le_word bs | Big \<Rightarrow> le_word (rev bs))"

text \<open>The three functions that the code installs as the engine's output handler.\<close>

datatype handler = go_crun_log_callback | log_write_to_stderr | log_write_to_pipe

text \<open>
  The engine's error object (\<^verbatim>\<open>struct libcrun_error_s\<close>): a status, which is a system error
  code or 0, and a message.
\<close>

record libcrun_error_s =
  status :: int
  msg :: string

text \<open>
  The effects a function performs, in program order. \<open>Ev_write\<close> carries the bytes handed
  to \<^verbatim>\<open>write\<close>; the code ignores the result of every \<^verbatim>\<open>write\<close> it makes.
\<close>

datatype event =
    Ev_pipe
  | Ev_fork
  | Ev_close fd
  | Ev_set_output_handler handler int
  | Ev_dup2 fd fd
  | Ev_open_null
  | Ev_write fd "byte list"
  | Ev_read fd nat
  | Ev_container_run
  | Ev_error_release
  | Ev_exit int
  | Ev_waitpid pid_t
  | Ev_make_error int string
  | Ev_get_containers_list
  | Ev_free_containers_list
  | Ev_goLogCallback nat "32 word" "byte list" "32 word"
  | Ev_stderr_log "32 word" "byte list" "32 word"
  | Ev_store_status int

text \<open>The bytes that reach descriptor \<open>f\<close> when every \<^verbatim>\<open>write\<close> of the trace completes.\<close>

fun written :: "fd \<Rightarrow> event list \<Rightarrow> byte list" where
  "written f [] = []"
| "written f (Ev_write g bs # tr) = (if g = f then bs @ written f tr else written f tr)"
| "written f (_ # tr) = written f tr"

section \<open>Wire log writer\<close>

text \<open>
  \<^verbatim>\<open>strlen\<close>: the number of bytes before the first NUL. A message is given by the bytes
  at the pointer; a list without a zero byte stands for a string whose terminator follows it.
\<close>

fun strlen :: "byte list \<Rightarrow> nat" where
  "strlen [] = 0"
| "strlen (b # bs) = (if b = 0 then 0 else Suc (strlen bs))"

text \<open>
  \<^verbatim>\<open>log_write_to_pipe(errno_, msg, verbosity, arg)\<close>: \<open>arg\<close> is the descriptor;
  \<^verbatim>\<open>len = (uint32_t) strlen(msg)\<close> truncates to 32 bits; four writes, none checked.
\<close>

definition log_write_to_pipe_fn :: "endian \<Rightarrow> 32 word \<Rightarrow> byte list \<Rightarrow> 32 word \<Rightarrow> int \<Rightarrow> event list" where
  "log_write_to_pipe_fn en errno' m verbosity arg =
     (let fd = arg;
          e = errno';
          v = verbosity;
          len = (word_of_nat (strlen m) :: 32 word)
      in [Ev_write fd (int32_bytes en e),
          Ev_write fd (int32_bytes en v),
          Ev_write fd (int32_bytes en len),
          Ev_write fd (take (unat len) m)])"

section \<open>Relay reader\<close>

record LogRecord =
  errorCode :: "32 word"
  verbosity :: "32 word"
  message :: "byte list"

text \<open>
  Modelled from the spec: the reader of the relay stream, which is on the Go side of the
  repository and not under src/. The spec gives the frame as
  \<^verbatim>\<open>int32 errorCode, int32 verbosity, uint32 length, byte[length] message\<close> in native byte
  order, with no terminator, and a short read (end of input inside a frame) as
  "no more complete records". \<open>decode_frame\<close> returns the record and the rest of the stream.
\<close>

definition decode_frame :: "endian \<Rightarrow> byte list \<Rightarrow> (LogRecord \<times> byte list) option" where
  "decode_frame en s =
     (if length s < 12 then None
      else let e = int32_of_bytes en (take 4 s);
               v = int32_of_bytes en (take 4 (drop 4 s));
               n = unat (int32_of_bytes en (take 4 (drop 8 s)));
               body = drop 12 s
           in if length body < n then None
              else Some (\<lparr>errorCode = e, verbosity = v, message = take n body\<rparr>, drop n body))"

section \<open>Error marshaler\<close>

text \<open>
  \<^verbatim>\<open>go_crun_err_to_cstr(err, status)\<close>. The argument \<open>err\<close> is a pointer to a pointer:
  \<open>None\<close> is \<^verbatim>\<open>err == NULL\<close>, \<open>Some None\<close> is \<^verbatim>\<open>*err == NULL\<close>. \<open>status_ptr\<close> tells
  whether the \<^verbatim>\<open>status\<close> out-pointer is non-null; each store through it is an
  \<open>Ev_store_status\<close> effect. \<^verbatim>\<open>strerror\<close> is the C library's table, taken as a parameter, and
  \<open>alloc_ok\<close> is the outcome of the one allocation (\<^verbatim>\<open>strdup\<close> or \<^verbatim>\<open>asprintf\<close>): when it
  fails the returned pointer is NULL. The result is the returned string and the effects.
\<close>

definition go_crun_err_to_cstr ::
  "(int \<Rightarrow> string) \<Rightarrow> bool \<Rightarrow> libcrun_error_s option option \<Rightarrow> bool \<Rightarrow> string option \<times> event list" where
  "go_crun_err_to_cstr strerror alloc_ok err status_ptr =
     (let t0 = (if status_ptr then [Ev_store_status 0] else [])
      in case err of
           None \<Rightarrow> (None, t0)
         | Some None \<Rightarrow> (None, t0)
         | Some (Some e) \<Rightarrow>
             (let t1 = (if status_ptr then [Ev_store_status (status e)] else []);
                  p = (if status e = 0
                       then (if alloc_ok then Some (msg e) else None)
                       else (if alloc_ok then Some (msg e @ '': '' @ strerror (status e)) else None))
              in (p, t0 @ t1 @ [Ev_error_release])))"

text \<open>The values stored through the status pointer, in order, and the value it holds at the end.\<close>

fun status_stores :: "event list \<Rightarrow> int list" where
  "status_stores [] = []"
| "status_stores (Ev_store_status v # tr) = v # status_stores tr"
| "status_stores (_ # tr) = status_stores tr"

definition final_status :: "event list \<Rightarrow> int option" where
  "final_status tr = (case status_stores tr of [] \<Rightarrow> None | vs \<Rightarrow> Some (last vs))"

fun releases :: "event list \<Rightarrow> nat" where
  "releases [] = 0"
| "releases (Ev_error_release # tr) = Suc (releases tr)"
| "releases (_ # tr) = releases tr"

fun is_store :: "event \<Rightarrow> bool" where
  "is_store (Ev_store_status v) = True"
| "is_store _ = False"

section \<open>Launch supervisor\<close>

text \<open>
  The outcomes of the calls that \<^verbatim>\<open>go_crun_run_with_pipes\<close> makes, as seen by the process
  that runs it. \<^verbatim>\<open>fork\<close> returns in two processes: the child is the run with
  \<open>fork_res = Inr 0\<close>, the parent the run with the child's process id.
  \<^item> \<open>pipe_res\<close>: \<open>Inl errno\<close> when \<^verbatim>\<open>pipe\<close> fails, else the read and the write end;
  \<^item> \<open>fork_res\<close>: \<open>Inl errno\<close> when \<^verbatim>\<open>fork\<close> fails, else its return value;
  \<^item> \<open>open_null_res\<close>: what \<^verbatim>\<open>open("/dev/null", O_RDONLY)\<close> returns (negative on failure);
  \<^item> \<open>dup2_res old new\<close>: \<open>None\<close> when \<^verbatim>\<open>dup2(old, new)\<close> succeeds, else the \<^verbatim>\<open>errno\<close> it sets;
  \<^item> \<open>run_res\<close>: what \<^verbatim>\<open>libcrun_container_run\<close> returns and what it leaves in \<^verbatim>\<open>child_err\<close>;
  \<^item> \<open>read_res\<close>: \<open>None\<close> when the parent's \<^verbatim>\<open>read\<close> fails, else the bytes that the pipe
    delivers before end of input, of which \<^verbatim>\<open>read\<close> takes at most 4;
  \<^item> \<open>make_error_rc\<close>: the value \<^verbatim>\<open>libcrun_make_error\<close> returns for a status. That function
    belongs to the engine; it stores the status and the message in \<^verbatim>\<open>*err\<close>.
  The context, the container and the flags are only handed on to the engine.
\<close>

record launch_env =
  byte_order :: endian
  pipe_res :: "int + fd \<times> fd"
  fork_res :: "int + pid_t"
  open_null_res :: fd
  dup2_res :: "fd \<Rightarrow> fd \<Rightarrow> 32 word option"
  run_res :: "int \<times> libcrun_error_s option"
  read_res :: "byte list option"
  make_error_rc :: "int \<Rightarrow> int"

text \<open>
  How a run ends: it returns \<^verbatim>\<open>rc\<close>, with \<^verbatim>\<open>*out_pid\<close> and \<^verbatim>\<open>*err\<close> when they were
  written, or the process ends in \<^verbatim>\<open>_exit\<close>.
\<close>

datatype outcome = Returned int "pid_t option" "libcrun_error_s option" | Exited int

definition STDIN_FILENO :: fd where "STDIN_FILENO = 0"
definition STDOUT_FILENO :: fd where "STDOUT_FILENO = 1"
definition STDERR_FILENO :: fd where "STDERR_FILENO = 2"

text \<open>
  A stage of the child's setup is its effects and, when it ended the process, the exit
  status. \<open>then_do\<close> runs the rest of the child, which ends in \<^verbatim>\<open>_exit\<close>, unless the
  process is gone.
\<close>

type_synonym stage = "event list \<times> int option"

definition then_do :: "stage \<Rightarrow> event list \<times> int \<Rightarrow> event list \<times> int" where
  "then_do a b = (case a of (t, Some st) \<Rightarrow> (t, st) | (t, None) \<Rightarrow> (t @ fst b, snd b))"

text \<open>Lines 254 to 258: the log sink of the child.\<close>

definition install_sink :: "fd \<Rightarrow> stage" where
  "install_sink log_fd =
     (if 0 \<le> log_fd then ([Ev_set_output_handler log_write_to_pipe log_fd], None)
      else ([Ev_set_output_handler log_write_to_stderr 0], None))"

text \<open>
  The stanza for a supplied descriptor (lines 262 to 267, 279 to 284, 289 to 294): on
  failure \<^verbatim>\<open>errno\<close> goes to the synchronization pipe and the child ends with \<^verbatim>\<open>_exit(1)\<close>.
\<close>

definition dup_onto :: "launch_env \<Rightarrow> fd \<Rightarrow> fd \<Rightarrow> fd \<Rightarrow> stage" where
  "dup_onto env wr src tgt =
     (case dup2_res env src tgt of
        Some e \<Rightarrow> ([Ev_dup2 src tgt, Ev_write wr (int32_bytes (byte_order env) e), Ev_exit 1], Some 1)
      | None \<Rightarrow> ([Ev_dup2 src tgt, Ev_close src], None))"

text \<open>Lines 261 to 275: the result of \<^verbatim>\<open>dup2\<close> on the null device is not looked at.\<close>

definition redirect_stdin :: "launch_env \<Rightarrow> fd \<Rightarrow> fd \<Rightarrow> stage" where
  "redirect_stdin env wr stdin_fd =
     (if 0 \<le> stdin_fd then dup_onto env wr stdin_fd STDIN_FILENO
      else (let null_fd = open_null_res env
            in if 0 \<le> null_fd then ([Ev_open_null, Ev_dup2 null_fd STDIN_FILENO, Ev_close null_fd], None)
               else ([Ev_open_null], None)))"

definition redirect_stdout :: "launch_env \<Rightarrow> fd \<Rightarrow> fd \<Rightarrow> stage" where
  "redirect_stdout env wr stdout_fd =
     (if 0 \<le> stdout_fd then dup_onto env wr stdout_fd STDOUT_FILENO else ([], None))"

definition redirect_stderr :: "launch_env \<Rightarrow> fd \<Rightarrow> fd \<Rightarrow> stage" where
  "redirect_stderr env wr stderr_fd =
     (if 0 \<le> stderr_fd then dup_onto env wr stderr_fd STDERR_FILENO else ([], None))"

text \<open>Lines 297 to 309: the handshake value 0, the engine, and the exit status.\<close>

definition run_engine :: "launch_env \<Rightarrow> fd \<Rightarrow> event list \<times> int" where
  "run_engine env wr =
     (let (rc, child_err) = run_res env
      in ([Ev_write wr (int32_bytes (byte_order env) 0), Ev_close wr, Ev_container_run]
          @ (if child_err \<noteq> None then [Ev_error_release] else [])
          @ [Ev_exit (if rc < 0 then 1 else rc)],
          if rc < 0 then 1 else rc))"

definition after_stdin :: "launch_env \<Rightarrow> fd \<Rightarrow> fd \<Rightarrow> fd \<Rightarrow> event list \<times> int" where
  "after_stdin env wr stdout_fd stderr_fd =
     then_do (redirect_stdout env wr stdout_fd)
       (then_do (redirect_stderr env wr stderr_fd) (run_engine env wr))"

definition child_branch ::
  "launch_env \<Rightarrow> fd \<Rightarrow> fd \<Rightarrow> fd \<Rightarrow> fd \<Rightarrow> fd \<Rightarrow> fd \<Rightarrow> event list \<times> int" where
  "child_branch env rd wr stdin_fd stdout_fd stderr_fd log_fd =
     then_do ([Ev_close rd], None)
       (then_do (install_sink log_fd)
          (then_do (redirect_stdin env wr stdin_fd) (after_stdin env wr stdout_fd stderr_fd)))"

text \<open>Lines 313 to 337: the parent reads the handshake value and decides.\<close>

definition parent_branch :: "launch_env \<Rightarrow> fd \<Rightarrow> fd \<Rightarrow> pid_t \<Rightarrow> event list \<times> outcome" where
  "parent_branch env rd wr pid =
     (let t = [Ev_close wr, Ev_read rd 4, Ev_close rd];
          buf = (case read_res env of None \<Rightarrow> [] | Some bs \<Rightarrow> take 4 bs);
          n = (case read_res env of None \<Rightarrow> - 1 | Some bs \<Rightarrow> int (length buf))
      in if n \<noteq> 4
         then (t @ [Ev_waitpid pid, Ev_make_error 0 ''child process failed unexpectedly''],
               Returned (make_error_rc env 0) None
                 (Some \<lparr>status = 0, msg = ''child process failed unexpectedly''\<rparr>))
         else (let child_errno = sint (int32_of_bytes (byte_order env) buf)
               in if child_errno \<noteq> 0
                  then (t @ [Ev_waitpid pid, Ev_make_error child_errno ''child process setup failed''],
                        Returned (make_error_rc env child_errno) None
                          (Some \<lparr>status = child_errno, msg = ''child process setup failed''\<rparr>))
                  else (t, Returned 0 (Some pid) None)))"

definition go_crun_run_with_pipes :: "launch_env \<Rightarrow> fd \<Rightarrow> fd \<Rightarrow> fd \<Rightarrow> fd \<Rightarrow> event list \<times> outcome" where
  "go_crun_run_with_pipes env stdin_fd stdout_fd stderr_fd log_fd =
     (case pipe_res env of
        Inl e \<Rightarrow> ([Ev_pipe, Ev_make_error e ''pipe failed''],
                  Returned (make_error_rc env e) None (Some \<lparr>status = e, msg = ''pipe failed''\<rparr>))
      | Inr (rd, wr) \<Rightarrow>
          (case fork_res env of
             Inl e \<Rightarrow> ([Ev_pipe, Ev_fork, Ev_close rd, Ev_close wr, Ev_make_error e ''fork failed''],
                       Returned (make_error_rc env e) None (Some \<lparr>status = e, msg = ''fork failed''\<rparr>))
           | Inr pid \<Rightarrow>
               if pid = 0
               then (case child_branch env rd wr stdin_fd stdout_fd stderr_fd log_fd of
                       (t, st) \<Rightarrow> ([Ev_pipe, Ev_fork] @ t, Exited st))
               else (case parent_branch env rd wr pid of
                       (t, r) \<Rightarrow> ([Ev_pipe, Ev_fork] @ t, r))))"

text \<open>
  An environment for the examples: descriptor 9 cannot be duplicated onto stdout (errno 9),
  the null device opens as descriptor 5 and cannot be duplicated onto stdin (errno 4), and
  the engine fails.
\<close>

definition example_env :: launch_env where
  "example_env = \<lparr>byte_order = Little, pipe_res = Inr (3, 4), fork_res = Inr 0, open_null_res = 5,
           dup2_res = (\<lambda>s t. if s = 9 \<and> t = 1 then Some 9 else if s = 5 \<and> t = 0 then Some 4 else None),
           run_res = (- 1, Some \<lparr>status = 2, msg = ''open config.json''\<rparr>),
           read_res = Some [9, 0, 0, 0], make_error_rc = (\<lambda>s. - s - 1)\<rparr>"

section \<open>Exit-status resolver\<close>

text \<open>
  \<^verbatim>\<open>EINTR\<close> and the wait-status macros come from the system headers; they are given
  with their Linux values: the low seven bits of the status are the terminating signal
  (0 for a normal exit, 127 for a stopped process), bit 7 is the core-dump flag and
  bits 8 to 15 are the exit code. \<^verbatim>\<open>WIFSIGNALED\<close> is
  \<^verbatim>\<open>((signed char) ((status & 0x7f) + 1) >> 1) > 0\<close>.
\<close>

definition EINTR :: int where "EINTR = 4"

definition WTERMSIG :: "32 word \<Rightarrow> 32 word" where
  "WTERMSIG st = st AND 0x7f"

definition WEXITSTATUS :: "32 word \<Rightarrow> 32 word" where
  "WEXITSTATUS st = drop_bit 8 (st AND 0xff00)"

definition WIFEXITED :: "32 word \<Rightarrow> bool" where
  "WIFEXITED st = (WTERMSIG st = 0)"

definition WIFSIGNALED :: "32 word \<Rightarrow> bool" where
  "WIFSIGNALED st = (0 < drop_bit 1 (sint (ucast ((st AND 0x7f) + 1) :: 8 word)))"

text \<open>
  \<^verbatim>\<open>go_crun_wait(pid, exit_code, err)\<close>. The outcomes of the successive calls of \<^verbatim>\<open>waitpid\<close>
  are a list: \<open>Inl errno\<close> for a call that returns a negative value, \<open>Inr status\<close> for one
  that reaps the child. The loop calls again after \<open>Inl EINTR\<close>. \<open>None\<close> says that the
  outcomes given do not let the call return. \<open>mk_rc\<close> is the value that
  \<^verbatim>\<open>libcrun_make_error\<close> returns for a status.
\<close>

record wait_result =
  wait_trace :: "event list"
  wait_rc :: int
  exit_code :: "int option"
  wait_err :: "libcrun_error_s option"

fun wait_loop :: "pid_t \<Rightarrow> (int + 32 word) list \<Rightarrow> (event list \<times> (int + 32 word)) option" where
  "wait_loop pid [] = None"
| "wait_loop pid (Inl e # rs) =
     (if e = EINTR
      then (case wait_loop pid rs of None \<Rightarrow> None | Some (t, r) \<Rightarrow> Some (Ev_waitpid pid # t, r))
      else Some ([Ev_waitpid pid], Inl e))"
| "wait_loop pid (Inr st # rs) = Some ([Ev_waitpid pid], Inr st)"

text \<open>Lines 353 to 359.\<close>

definition decode_status :: "32 word \<Rightarrow> int" where
  "decode_status st =
     (if WIFEXITED st then sint (WEXITSTATUS st)
      else if WIFSIGNALED st then sint (128 + WTERMSIG st)
      else - 1)"

definition go_crun_wait :: "(int \<Rightarrow> int) \<Rightarrow> pid_t \<Rightarrow> (int + 32 word) list \<Rightarrow> wait_result option" where
  "go_crun_wait mk_rc pid rs =
     (case wait_loop pid rs of
        None \<Rightarrow> None
      | Some (t, Inl e) \<Rightarrow>
          Some \<lparr>wait_trace = t @ [Ev_make_error e ''waitpid failed''], wait_rc = mk_rc e,
                exit_code = None, wait_err = Some \<lparr>status = e, msg = ''waitpid failed''\<rparr>\<rparr>
      | Some (t, Inr st) \<Rightarrow>
          Some \<lparr>wait_trace = t, wait_rc = 0, exit_code = Some (decode_status st), wait_err = None\<rparr>)"

section \<open>Log callback slot\<close>

text \<open>
  The process-wide state of the synchronous logging path: the variable \<^verbatim>\<open>go_log_handle\<close>
  of \<^verbatim>\<open>go_crun.c\<close>, and the output handler with its argument that the engine keeps and
  that \<^verbatim>\<open>crun_set_output_handler\<close> replaces. A handler of \<open>None\<close> is the NULL function
  pointer.
\<close>

record log_state =
  go_log_handle :: nat
  output_handler :: "handler option"
  output_handler_arg :: int

definition crun_set_output_handler :: "handler option \<Rightarrow> int \<Rightarrow> log_state \<Rightarrow> log_state" where
  "crun_set_output_handler h arg s = s\<lparr>output_handler := h, output_handler_arg := arg\<rparr>"

definition go_crun_set_log_handler :: "nat \<Rightarrow> log_state \<Rightarrow> log_state" where
  "go_crun_set_log_handler handle s =
     crun_set_output_handler (Some go_crun_log_callback) 0 (s\<lparr>go_log_handle := handle\<rparr>)"

definition go_crun_reset_log_handler :: "log_state \<Rightarrow> log_state" where
  "go_crun_reset_log_handler s =
     crun_set_output_handler (Some log_write_to_stderr) 0 (s\<lparr>go_log_handle := 0\<rparr>)"

text \<open>Lines 16 to 21: the callback-routing sink passes the record on when a handle is set.\<close>

definition go_crun_log_callback_fn :: "log_state \<Rightarrow> 32 word \<Rightarrow> byte list \<Rightarrow> 32 word \<Rightarrow> event list" where
  "go_crun_log_callback_fn s errno' m v =
     (if go_log_handle s \<noteq> 0 then [Ev_goLogCallback (go_log_handle s) errno' m v] else [])"

text \<open>
  A log call of the engine calls the installed handler; calling the NULL handler ends the
  process (the comment at line 30), which is the result \<open>None\<close>.
\<close>

definition emit_log :: "endian \<Rightarrow> log_state \<Rightarrow> 32 word \<Rightarrow> byte list \<Rightarrow> 32 word \<Rightarrow> event list option" where
  "emit_log en s e m v =
     (case output_handler s of
        None \<Rightarrow> None
      | Some go_crun_log_callback \<Rightarrow> Some (go_crun_log_callback_fn s e m v)
      | Some log_write_to_stderr \<Rightarrow> Some [Ev_stderr_log e m v]
      | Some log_write_to_pipe \<Rightarrow> Some (log_write_to_pipe_fn en e m v (output_handler_arg s)))"

datatype log_op = Register nat | Reset

fun apply_op :: "log_op \<Rightarrow> log_state \<Rightarrow> log_state" where
  "apply_op (Register handle) s = go_crun_set_log_handler handle s"
| "apply_op Reset s = go_crun_reset_log_handler s"

fun run_ops :: "log_op list \<Rightarrow> log_state \<Rightarrow> log_state" where
  "run_ops [] s = s"
| "run_ops (x # xs) s = run_ops xs (apply_op x s)"

section \<open>List marshaling\<close>

text \<open>
  \<^verbatim>\<open>go_crun_list(state_root, out, out_len, err)\<close>. \<open>get_res\<close> is what
  \<^verbatim>\<open>libcrun_get_containers_list\<close> returns: its return code, the list of names (a name may
  be NULL) and what it leaves in \<^verbatim>\<open>*err\<close>. \<open>calloc_res\<close> is \<open>None\<close> when \<^verbatim>\<open>calloc\<close>
  returns memory and the \<^verbatim>\<open>errno\<close> otherwise; \<open>strdup_ok i\<close> tells whether the \<open>i\<close>-th
  \<^verbatim>\<open>strdup\<close> returns memory (its result is stored unchecked). The count is not wrapped to
  32 bits here.
\<close>

record list_result =
  list_trace :: "event list"
  list_rc :: int
  list_out :: "string option list option"
  list_out_len :: "int option"
  list_err :: "libcrun_error_s option"

fun count_entries :: "string option list \<Rightarrow> int \<Rightarrow> int" where
  "count_entries [] n = n"
| "count_entries (it # lst) n = count_entries lst (n + 1)"

fun dup_names :: "(nat \<Rightarrow> bool) \<Rightarrow> nat \<Rightarrow> string option list \<Rightarrow> string option list" where
  "dup_names ok i [] = []"
| "dup_names ok i (name # lst) =
     (if ok i then Some (case name of Some s \<Rightarrow> s | None \<Rightarrow> []) else None) # dup_names ok (Suc i) lst"

definition go_crun_list ::
  "(int \<Rightarrow> int) \<Rightarrow> int \<times> string option list \<times> libcrun_error_s option \<Rightarrow> int option \<Rightarrow> (nat \<Rightarrow> bool)
     \<Rightarrow> list_result" where
  "go_crun_list mk_rc get_res calloc_res strdup_ok =
     (case get_res of (rc, lst, e) \<Rightarrow>
        if rc < 0
        then \<lparr>list_trace = [Ev_get_containers_list], list_rc = rc, list_out = None, list_out_len = None,
              list_err = e\<rparr>
        else (let n = count_entries lst 0
              in case calloc_res of
                   Some en \<Rightarrow>
                     \<lparr>list_trace = [Ev_get_containers_list, Ev_free_containers_list,
                                     Ev_make_error en ''calloc failed''],
                      list_rc = mk_rc en, list_out = None, list_out_len = None,
                      list_err = Some \<lparr>status = en, msg = ''calloc failed''\<rparr>\<rparr>
                 | None \<Rightarrow>
                     \<lparr>list_trace = [Ev_get_containers_list, Ev_free_containers_list],
                      list_rc = 0, list_out = Some (dup_names strdup_ok 0 lst), list_out_len = Some n,
                      list_err = e\<rparr>))"

section \<open>Byte representation\<close>

lemma le_word_le_bytes: "le_word (le_bytes w) = w"
  unfolding le_bytes_def
proof (rule bit_word_eqI)
  fix n assume n: "n < LENGTH(32)"
  consider "n < 8" | "8 \<le> n" "n < 16" | "16 \<le> n" "n < 24" | "24 \<le> n" by linarith
  then show "bit (le_word [ucast w, ucast (drop_bit 8 w), ucast (drop_bit 16 w), ucast (drop_bit 24 w)]) n = bit w n"
    using n by cases (auto simp add: bit_simps)
qed

lemma length_int32_bytes: "length (int32_bytes en w) = 4"
  by (cases en) (simp_all add: int32_bytes_def le_bytes_def)

lemma int32_of_bytes_int32_bytes: "int32_of_bytes en (int32_bytes en w) = w"
  by (cases en) (simp_all add: int32_bytes_def int32_of_bytes_def le_word_le_bytes)

lemma strlen_le: "strlen m \<le> length m"
  by (induction m) auto

lemma strlen_no_nul: "0 \<notin> set m \<Longrightarrow> strlen m = length m"
  by (induction m) auto

lemma take_strlen: "take (strlen m) m = takeWhile (\<lambda>b. b \<noteq> 0) m"
  by (induction m) auto

lemma written_log_write_to_pipe:
  "written f (log_write_to_pipe_fn en e m v f) =
     int32_bytes en e @ int32_bytes en v @ int32_bytes en (word_of_nat (strlen m))
       @ take (unat (word_of_nat (strlen m) :: 32 word)) m"
  by (simp add: log_write_to_pipe_fn_def Let_def)

lemma decode_header:
  assumes "length body \<ge> unat n"
  shows "decode_frame en (int32_bytes en e @ int32_bytes en v @ int32_bytes en n @ body)
           = Some (\<lparr>errorCode = e, verbosity = v, message = take (unat n) body\<rparr>, drop (unat n) body)"
  using assms
  by (simp add: decode_frame_def Let_def length_int32_bytes int32_of_bytes_int32_bytes)

lemma decode_written_general:
  "decode_frame en (written f (log_write_to_pipe_fn en e m v f) @ rest)
     = Some (\<lparr>errorCode = e, verbosity = v,
              message = take (unat (word_of_nat (strlen m) :: 32 word)) m\<rparr>, rest)"
proof -
  let ?n = "word_of_nat (strlen m) :: 32 word"
  have "unat ?n \<le> strlen m"
    by (simp add: unat_of_nat)
  then have le: "unat ?n \<le> length m"
    using strlen_le [of m] by linarith
  have "decode_frame en (int32_bytes en e @ int32_bytes en v @ int32_bytes en ?n @ (take (unat ?n) m @ rest))
          = Some (\<lparr>errorCode = e, verbosity = v, message = take (unat ?n) (take (unat ?n) m @ rest)\<rparr>,
                  drop (unat ?n) (take (unat ?n) m @ rest))"
    by (rule decode_header) (simp add: le min_absorb2)
  then show ?thesis
    using le by (simp add: written_log_write_to_pipe min_absorb2)
qed

section \<open>Error marshaler: conversion and release\<close>

lemma releases_append: "releases (a @ b) = releases a + releases b"
  by (induction a rule: releases.induct) auto

lemma status_stores_append: "status_stores (a @ b) = status_stores a @ status_stores b"
  by (induction a rule: status_stores.induct) auto

text \<open>
  C5. An absent error (\<^verbatim>\<open>err == NULL\<close> or \<^verbatim>\<open>*err == NULL\<close>) gives no string, status 0 and
  no release. A present error with status 0 gives the message verbatim; with a nonzero status
  it gives the message, a colon and a space, and the system's description of the status
  (both when the string can be allocated). In both present cases the status is stored and
  the error is released exactly once, as the last effect, whether or not the allocation
  succeeded.
\<close>

theorem err_to_cstr_contract:
  "(err = None \<or> err = Some None \<longrightarrow>
      go_crun_err_to_cstr se ok err True = (None, [Ev_store_status 0])
      \<and> final_status (snd (go_crun_err_to_cstr se ok err True)) = Some 0
      \<and> releases (snd (go_crun_err_to_cstr se ok err sp)) = 0)
   \<and> (status e = 0 \<longrightarrow> fst (go_crun_err_to_cstr se True (Some (Some e)) sp) = Some (msg e))
   \<and> (status e \<noteq> 0 \<longrightarrow>
        fst (go_crun_err_to_cstr se True (Some (Some e)) sp) = Some (msg e @ '': '' @ se (status e)))
   \<and> final_status (snd (go_crun_err_to_cstr se ok (Some (Some e)) True)) = Some (status e)
   \<and> releases (snd (go_crun_err_to_cstr se ok (Some (Some e)) sp)) = 1
   \<and> last (snd (go_crun_err_to_cstr se ok (Some (Some e)) sp)) = Ev_error_release"
  by (auto simp add: go_crun_err_to_cstr_def Let_def final_status_def releases_append)

theorem err_to_cstr_contract_witness:
  "go_crun_err_to_cstr (\<lambda>n. if n = 2 then ''No such file or directory'' else ''Unknown error'') True None True
      = (None, [Ev_store_status 0])
   \<and> fst (go_crun_err_to_cstr (\<lambda>n. if n = 2 then ''No such file or directory'' else ''Unknown error'') True
        (Some (Some \<lparr>status = 0, msg = ''cannot parse process''\<rparr>)) True) = Some ''cannot parse process''
   \<and> fst (go_crun_err_to_cstr (\<lambda>n. if n = 2 then ''No such file or directory'' else ''Unknown error'') True
        (Some (Some \<lparr>status = 2, msg = ''open config.json''\<rparr>)) True)
      = Some ''open config.json: No such file or directory''
   \<and> releases (snd (go_crun_err_to_cstr (\<lambda>n. if n = 2 then ''No such file or directory'' else ''Unknown error'') True
        (Some (Some \<lparr>status = 2, msg = ''open config.json''\<rparr>)) True)) = 1"
  using err_to_cstr_contract [of None "\<lambda>n. if n = 2 then ''No such file or directory'' else ''Unknown error''"
      True True "\<lparr>status = 0, msg = ''cannot parse process''\<rparr>"]
    err_to_cstr_contract [of None "\<lambda>n. if n = 2 then ''No such file or directory'' else ''Unknown error''"
      True True "\<lparr>status = 2, msg = ''open config.json''\<rparr>"]
  by simp

text \<open>
  C10. With a NULL status pointer nothing is stored through it, the returned string is the
  one returned with a non-null pointer, and the other effects are the same.
\<close>

theorem err_to_cstr_null_status:
  "status_stores (snd (go_crun_err_to_cstr se ok err False)) = []
   \<and> fst (go_crun_err_to_cstr se ok err False) = fst (go_crun_err_to_cstr se ok err True)
   \<and> snd (go_crun_err_to_cstr se ok err False)
       = filter (\<lambda>ev. \<not> is_store ev) (snd (go_crun_err_to_cstr se ok err True))"
  by (simp add: go_crun_err_to_cstr_def Let_def split: option.splits)

section \<open>Wire log relay: encoding and decoding\<close>

text \<open>
  C3 (as amended). For every error code, verbosity and message that has no NUL byte and is
  shorter than 2^32 bytes, in either byte order, the frame that \<^verbatim>\<open>log_write_to_pipe\<close> writes,
  followed by anything, decodes to the same error code, verbosity and message, and the rest
  of the stream is what followed the frame. The empty message is included.
\<close>

theorem log_frame_roundtrip:
  assumes "0 \<notin> set m" and "length m < 2 ^ 32"
  shows "decode_frame en (written f (log_write_to_pipe_fn en e m v f) @ rest)
           = Some (\<lparr>errorCode = e, verbosity = v, message = m\<rparr>, rest)"
proof -
  have "strlen m = length m"
    using assms(1) by (rule strlen_no_nul)
  moreover have "unat (word_of_nat (length m) :: 32 word) = length m"
    using assms(2) by (simp add: unat_of_nat)
  ultimately show ?thesis
    by (simp add: decode_written_general)
qed

theorem log_frame_roundtrip_witness:
  "decode_frame Big (written 7 (log_write_to_pipe_fn Big 2 [0x6f, 0xff, 0x0a, 0x80] (-1) 7) @ [1, 2])
     = Some (\<lparr>errorCode = 2, verbosity = -1, message = [0x6f, 0xff, 0x0a, 0x80]\<rparr>, [1, 2])
   \<and> decode_frame Little (written 7 (log_write_to_pipe_fn Little 0 [] 0 7))
     = Some (\<lparr>errorCode = 0, verbosity = 0, message = []\<rparr>, [])"
  using log_frame_roundtrip [of "[0x6f, 0xff, 0x0a, 0x80]" Big 7 2 "-1" "[1, 2]"]
    log_frame_roundtrip [of "[]" Little 7 0 0 "[]"]
  by simp

text \<open>
  The claim as stated, for arbitrary message bytes, fails: a message with an embedded NUL
  byte is cut at the NUL by \<^verbatim>\<open>strlen\<close>, and a message of 2^32 bytes gets the length 0.
\<close>

theorem log_frame_roundtrip_counterexample:
  "decode_frame Little (written 7 (log_write_to_pipe_fn Little 1 [0x41, 0x00, 0x42] 2 7))
     = Some (\<lparr>errorCode = 1, verbosity = 2, message = [0x41]\<rparr>, [])
   \<and> [0x41 :: byte] \<noteq> [0x41, 0x00, 0x42]
   \<and> decode_frame Little (written 7 (log_write_to_pipe_fn Little 1 (replicate (2 ^ 32) 0x41) 2 7))
     = Some (\<lparr>errorCode = 1, verbosity = 2, message = []\<rparr>, [])
   \<and> [] \<noteq> replicate (2 ^ 32) (0x41 :: byte)"
proof -
  have a: "decode_frame Little (written 7 (log_write_to_pipe_fn Little 1 [0x41, 0x00, 0x42] 2 7))
     = Some (\<lparr>errorCode = 1, verbosity = 2, message = [0x41]\<rparr>, [])"
    using decode_written_general [of Little 7 1 "[0x41, 0x00, 0x42]" 2 "[]"] by simp
  have "strlen (replicate n 0x41) = n" for n
    by (induction n) auto
  then have "(word_of_nat (strlen (replicate (2 ^ 32) 0x41)) :: 32 word) = 0"
    by simp
  then have b: "decode_frame Little (written 7 (log_write_to_pipe_fn Little 1 (replicate (2 ^ 32) 0x41) 2 7))
     = Some (\<lparr>errorCode = 1, verbosity = 2, message = []\<rparr>, [])"
    using decode_written_general [of Little 7 1 "replicate (2 ^ 32) 0x41" 2 "[]"] by simp
  have c: "[] \<noteq> replicate (2 ^ 32) (0x41 :: byte)"
    by simp
  from a b c show ?thesis by simp
qed

section \<open>Launch supervisor: handshake and child\<close>

lemma written_append: "written f (a @ b) = written f a @ written f b"
  by (induction f a rule: written.induct) auto

text \<open>
  C2. In the parent (\<^verbatim>\<open>fork\<close> returned the child's process id): when the read of the
  synchronization pipe fails or delivers fewer than 4 bytes, the parent closes both ends,
  waits for the child and returns the error "child process failed unexpectedly" with status
  0, and \<^verbatim>\<open>*out_pid\<close> is not written; when it delivers 4 bytes whose value is 0, the call
  returns 0 with the child's process id in \<^verbatim>\<open>*out_pid\<close> and no error, and does not wait.
\<close>

theorem launch_parent_handshake:
  assumes "pipe_res env = Inr (rd, wr)" and "fork_res env = Inr pid" and "pid \<noteq> 0"
  shows "(read_res env = None \<or> (read_res env = Some bs \<and> length bs < 4) \<longrightarrow>
            go_crun_run_with_pipes env stdin_fd stdout_fd stderr_fd log_fd =
              ([Ev_pipe, Ev_fork, Ev_close wr, Ev_read rd 4, Ev_close rd, Ev_waitpid pid,
                Ev_make_error 0 ''child process failed unexpectedly''],
               Returned (make_error_rc env 0) None
                 (Some \<lparr>status = 0, msg = ''child process failed unexpectedly''\<rparr>)))
       \<and> (read_res env = Some bs \<and> 4 \<le> length bs \<and> int32_of_bytes (byte_order env) (take 4 bs) = 0 \<longrightarrow>
            go_crun_run_with_pipes env stdin_fd stdout_fd stderr_fd log_fd =
              ([Ev_pipe, Ev_fork, Ev_close wr, Ev_read rd 4, Ev_close rd], Returned 0 (Some pid) None))"
  using assms
  by (auto simp add: go_crun_run_with_pipes_def parent_branch_def Let_def min_def)

lemma child_run:
  assumes "pipe_res env = Inr (rd, wr)" and "fork_res env = Inr 0"
  shows "go_crun_run_with_pipes env i out er l =
           ([Ev_pipe, Ev_fork] @ fst (child_branch env rd wr i out er l),
            Exited (snd (child_branch env rd wr i out er l)))"
  using assms by (simp add: go_crun_run_with_pipes_def split: prod.splits)

lemma child_dup_failure:
  assumes "(0 \<le> i \<and> dup2_res env i 0 = Some e)
         \<or> ((i < 0 \<or> dup2_res env i 0 = None) \<and> 0 \<le> out \<and> dup2_res env out 1 = Some e)
         \<or> ((i < 0 \<or> dup2_res env i 0 = None) \<and> (out < 0 \<or> dup2_res env out 1 = None)
              \<and> 0 \<le> er \<and> dup2_res env er 2 = Some e)"
  shows "\<exists>pre. child_branch env rd wr i out er l
            = (pre @ [Ev_write wr (int32_bytes (byte_order env) e), Ev_exit 1], 1)
          \<and> written wr pre = [] \<and> Ev_container_run \<notin> set pre"
  using assms
  by (auto simp add: child_branch_def after_stdin_def then_do_def install_sink_def redirect_stdin_def
      redirect_stdout_def redirect_stderr_def dup_onto_def STDIN_FILENO_def STDOUT_FILENO_def
      STDERR_FILENO_def Let_def)

lemmas child_defs = child_branch_def after_stdin_def then_do_def install_sink_def redirect_stdin_def
      redirect_stdout_def redirect_stderr_def dup_onto_def run_engine_def STDIN_FILENO_def STDOUT_FILENO_def
      STDERR_FILENO_def Let_def

lemma parent_reads_errno:
  assumes "pipe_res env = Inr (rd, wr)" and "fork_res env = Inr pid" and "pid \<noteq> 0"
    and "read_res env = Some (int32_bytes (byte_order env) e)" and "e \<noteq> 0"
  shows "go_crun_run_with_pipes env i out er l =
           ([Ev_pipe, Ev_fork, Ev_close wr, Ev_read rd 4, Ev_close rd, Ev_waitpid pid,
             Ev_make_error (sint e) ''child process setup failed''],
            Returned (make_error_rc env (sint e)) None
              (Some \<lparr>status = sint e, msg = ''child process setup failed''\<rparr>))"
  using assms
  by (simp add: go_crun_run_with_pipes_def parent_branch_def Let_def length_int32_bytes
      int32_of_bytes_int32_bytes signed_eq_0_iff)

text \<open>
  C1. When \<^verbatim>\<open>dup2\<close> fails with errno \<open>e\<close> for the first supplied descriptor that is
  duplicated (stdin, or stdout after stdin went through, or stderr after both), the child
  hands exactly the 4 bytes of \<open>e\<close> to the synchronization pipe and ends with status 1.
  When the parent's read delivers what the child wrote and \<open>e\<close> is not 0, the parent waits
  for the child and returns the error "child process setup failed" whose status is \<open>e\<close>,
  and \<^verbatim>\<open>*out_pid\<close> is not written.
\<close>

theorem dup_failure_handshake:
  assumes pipe: "pipe_res env = Inr (rd, wr)"
    and fail: "(0 \<le> stdin_fd \<and> dup2_res env stdin_fd 0 = Some e)
         \<or> ((stdin_fd < 0 \<or> dup2_res env stdin_fd 0 = None) \<and> 0 \<le> stdout_fd \<and> dup2_res env stdout_fd 1 = Some e)
         \<or> ((stdin_fd < 0 \<or> dup2_res env stdin_fd 0 = None) \<and> (stdout_fd < 0 \<or> dup2_res env stdout_fd 1 = None)
              \<and> 0 \<le> stderr_fd \<and> dup2_res env stderr_fd 2 = Some e)"
    and nz: "e \<noteq> 0"
    and pid: "pid \<noteq> 0"
    and hs: "read_res env = Some (written wr
               (fst (go_crun_run_with_pipes (env\<lparr>fork_res := Inr 0\<rparr>) stdin_fd stdout_fd stderr_fd log_fd)))"
  shows "written wr (fst (go_crun_run_with_pipes (env\<lparr>fork_res := Inr 0\<rparr>) stdin_fd stdout_fd stderr_fd log_fd))
           = int32_bytes (byte_order env) e
       \<and> snd (go_crun_run_with_pipes (env\<lparr>fork_res := Inr 0\<rparr>) stdin_fd stdout_fd stderr_fd log_fd) = Exited 1
       \<and> go_crun_run_with_pipes (env\<lparr>fork_res := Inr pid\<rparr>) stdin_fd stdout_fd stderr_fd log_fd
           = ([Ev_pipe, Ev_fork, Ev_close wr, Ev_read rd 4, Ev_close rd, Ev_waitpid pid,
               Ev_make_error (sint e) ''child process setup failed''],
              Returned (make_error_rc env (sint e)) None
                (Some \<lparr>status = sint e, msg = ''child process setup failed''\<rparr>))"
proof -
  let ?c = "env\<lparr>fork_res := Inr 0\<rparr>"
  let ?p = "env\<lparr>fork_res := Inr pid\<rparr>"
  have run: "go_crun_run_with_pipes ?c stdin_fd stdout_fd stderr_fd log_fd =
           ([Ev_pipe, Ev_fork] @ fst (child_branch ?c rd wr stdin_fd stdout_fd stderr_fd log_fd),
            Exited (snd (child_branch ?c rd wr stdin_fd stdout_fd stderr_fd log_fd)))"
    by (rule child_run) (simp_all add: pipe)
  obtain pre where pre: "child_branch ?c rd wr stdin_fd stdout_fd stderr_fd log_fd
            = (pre @ [Ev_write wr (int32_bytes (byte_order ?c) e), Ev_exit 1], 1)"
      "written wr pre = []"
    using child_dup_failure [of stdin_fd ?c e stdout_fd stderr_fd rd wr log_fd] fail by auto
  have w: "written wr (fst (go_crun_run_with_pipes ?c stdin_fd stdout_fd stderr_fd log_fd))
             = int32_bytes (byte_order env) e"
    by (simp add: run pre written_append)
  have x: "snd (go_crun_run_with_pipes ?c stdin_fd stdout_fd stderr_fd log_fd) = Exited 1"
    by (simp add: run pre)
  have "read_res ?p = Some (int32_bytes (byte_order ?p) e)"
    using hs w by simp
  then have p: "go_crun_run_with_pipes ?p stdin_fd stdout_fd stderr_fd log_fd
           = ([Ev_pipe, Ev_fork, Ev_close wr, Ev_read rd 4, Ev_close rd, Ev_waitpid pid,
               Ev_make_error (sint e) ''child process setup failed''],
              Returned (make_error_rc ?p (sint e)) None
                (Some \<lparr>status = sint e, msg = ''child process setup failed''\<rparr>))"
    using pipe pid nz by (intro parent_reads_errno) simp_all
  from w x p show ?thesis by simp
qed

lemmas eval_defs = example_env_def go_crun_run_with_pipes_def parent_branch_def child_defs
  le_bytes_def int32_bytes_def int32_of_bytes_def

theorem dup_failure_handshake_witness:
  "written 4 (fst (go_crun_run_with_pipes (example_env\<lparr>fork_res := Inr 0\<rparr>) (- 1) 9 (- 1) (- 1))) = [9, 0, 0, 0]
   \<and> snd (go_crun_run_with_pipes (example_env\<lparr>fork_res := Inr 0\<rparr>) (- 1) 9 (- 1) (- 1)) = Exited 1
   \<and> go_crun_run_with_pipes (example_env\<lparr>fork_res := Inr 4242\<rparr>) (- 1) 9 (- 1) (- 1)
        = ([Ev_pipe, Ev_fork, Ev_close 4, Ev_read 3 4, Ev_close 3, Ev_waitpid 4242,
            Ev_make_error 9 ''child process setup failed''],
           Returned (- 10) None (Some \<lparr>status = 9, msg = ''child process setup failed''\<rparr>))"
  using dup_failure_handshake [where env = example_env and rd = 3 and wr = 4 and stdin_fd = "- 1"
      and stdout_fd = 9 and stderr_fd = "- 1" and log_fd = "- 1" and e = 9 and pid = 4242]
  by (simp add: eval_defs)

text \<open>
  C6. In the child, when no redirection fails, the child writes the handshake value 0,
  closes the pipe and calls the engine; an error object that the engine returns is released
  and nothing else is done with it; the argument of \<^verbatim>\<open>_exit\<close> is 1 when the engine's result
  is negative and the engine's result otherwise.
\<close>

theorem child_exit_status:
  assumes "pipe_res env = Inr (rd, wr)" and "fork_res env = Inr 0"
    and "stdin_fd < 0 \<or> dup2_res env stdin_fd 0 = None"
    and "stdout_fd < 0 \<or> dup2_res env stdout_fd 1 = None"
    and "stderr_fd < 0 \<or> dup2_res env stderr_fd 2 = None"
    and "run_res env = (rc, child_err)"
  shows "go_crun_run_with_pipes env stdin_fd stdout_fd stderr_fd log_fd
           = ([Ev_pipe, Ev_fork, Ev_close rd] @ fst (install_sink log_fd) @ fst (redirect_stdin env wr stdin_fd)
                @ fst (redirect_stdout env wr stdout_fd) @ fst (redirect_stderr env wr stderr_fd)
                @ [Ev_write wr (int32_bytes (byte_order env) 0), Ev_close wr, Ev_container_run]
                @ (if child_err \<noteq> None then [Ev_error_release] else [])
                @ [Ev_exit (if rc < 0 then 1 else rc)],
              Exited (if rc < 0 then 1 else rc))"
  using assms
  by (auto simp add: child_run child_defs)

theorem child_exit_status_witness:
  "go_crun_run_with_pipes example_env 7 (- 1) (- 1) 8
     = ([Ev_pipe, Ev_fork, Ev_close 3, Ev_set_output_handler log_write_to_pipe 8, Ev_dup2 7 0, Ev_close 7,
         Ev_write 4 [0, 0, 0, 0], Ev_close 4, Ev_container_run, Ev_error_release, Ev_exit 1],
        Exited 1)
   \<and> go_crun_run_with_pipes (example_env\<lparr>run_res := (42, None)\<rparr>) 7 (- 1) (- 1) 8
     = ([Ev_pipe, Ev_fork, Ev_close 3, Ev_set_output_handler log_write_to_pipe 8, Ev_dup2 7 0, Ev_close 7,
         Ev_write 4 [0, 0, 0, 0], Ev_close 4, Ev_container_run, Ev_exit 42],
        Exited 42)"
  using child_exit_status [where env = example_env and rd = 3 and wr = 4 and stdin_fd = 7
      and stdout_fd = "- 1" and stderr_fd = "- 1" and log_fd = 8 and rc = "- 1"
      and child_err = "Some \<lparr>status = 2, msg = ''open config.json''\<rparr>"]
    child_exit_status [where env = "example_env\<lparr>run_res := (42, None)\<rparr>" and rd = 3 and wr = 4 and stdin_fd = 7
      and stdout_fd = "- 1" and stderr_fd = "- 1" and log_fd = 8 and rc = 42 and child_err = None]
  by (simp add: example_env_def child_defs le_bytes_def int32_bytes_def)

theorem launch_parent_handshake_witness:
  "go_crun_run_with_pipes (example_env\<lparr>fork_res := Inr 4242, read_res := Some [0, 0]\<rparr>) 7 (- 1) (- 1) 8
     = ([Ev_pipe, Ev_fork, Ev_close 4, Ev_read 3 4, Ev_close 3, Ev_waitpid 4242,
         Ev_make_error 0 ''child process failed unexpectedly''],
        Returned (- 1) None (Some \<lparr>status = 0, msg = ''child process failed unexpectedly''\<rparr>))
   \<and> go_crun_run_with_pipes (example_env\<lparr>fork_res := Inr 4242, read_res := Some [0, 0, 0, 0]\<rparr>) 7 (- 1) (- 1) 8
     = ([Ev_pipe, Ev_fork, Ev_close 4, Ev_read 3 4, Ev_close 3], Returned 0 (Some 4242) None)"
  using launch_parent_handshake [where env = "example_env\<lparr>fork_res := Inr 4242, read_res := Some [0, 0]\<rparr>"
      and rd = 3 and wr = 4 and pid = 4242 and bs = "[0, 0]" and stdin_fd = 7 and stdout_fd = "- 1"
      and stderr_fd = "- 1" and log_fd = 8]
    launch_parent_handshake [where env = "example_env\<lparr>fork_res := Inr 4242, read_res := Some [0, 0, 0, 0]\<rparr>"
      and rd = 3 and wr = 4 and pid = 4242 and bs = "[0, 0, 0, 0]" and stdin_fd = 7 and stdout_fd = "- 1"
      and stderr_fd = "- 1" and log_fd = 8]
  by (simp add: example_env_def int32_of_bytes_def)

text \<open>
  C7 (as amended). In the child, when no stdin descriptor is supplied, the child opens the
  null device and, when the open gives a descriptor, duplicates it onto stdin and closes it;
  neither result is checked, and the child goes on with stdout, stderr and the engine. For a
  supplied descriptor (stdin, stdout or stderr) a failure of \<^verbatim>\<open>dup2\<close> is followed at once by
  the write of its errno to the write end of the synchronization pipe and by \<^verbatim>\<open>_exit(1)\<close>.
\<close>

theorem stdin_redirection:
  assumes "pipe_res env = Inr (rd, wr)" and "fork_res env = Inr 0"
  shows "(stdin_fd < 0 \<longrightarrow>
            go_crun_run_with_pipes env stdin_fd stdout_fd stderr_fd log_fd
              = ([Ev_pipe, Ev_fork, Ev_close rd] @ fst (install_sink log_fd) @ [Ev_open_null]
                   @ (if 0 \<le> open_null_res env
                      then [Ev_dup2 (open_null_res env) 0, Ev_close (open_null_res env)] else [])
                   @ fst (after_stdin env wr stdout_fd stderr_fd),
                 Exited (snd (after_stdin env wr stdout_fd stderr_fd))))
       \<and> (0 \<le> stdin_fd \<and> dup2_res env stdin_fd 0 = Some e \<longrightarrow>
            go_crun_run_with_pipes env stdin_fd stdout_fd stderr_fd log_fd
              = ([Ev_pipe, Ev_fork, Ev_close rd] @ fst (install_sink log_fd)
                   @ [Ev_dup2 stdin_fd 0, Ev_write wr (int32_bytes (byte_order env) e), Ev_exit 1],
                 Exited 1))
       \<and> ((stdin_fd < 0 \<or> dup2_res env stdin_fd 0 = None) \<and> 0 \<le> stdout_fd
             \<and> dup2_res env stdout_fd 1 = Some e \<longrightarrow>
            go_crun_run_with_pipes env stdin_fd stdout_fd stderr_fd log_fd
              = ([Ev_pipe, Ev_fork, Ev_close rd] @ fst (install_sink log_fd)
                   @ fst (redirect_stdin env wr stdin_fd)
                   @ [Ev_dup2 stdout_fd 1, Ev_write wr (int32_bytes (byte_order env) e), Ev_exit 1],
                 Exited 1))
       \<and> ((stdin_fd < 0 \<or> dup2_res env stdin_fd 0 = None)
             \<and> (stdout_fd < 0 \<or> dup2_res env stdout_fd 1 = None) \<and> 0 \<le> stderr_fd
             \<and> dup2_res env stderr_fd 2 = Some e \<longrightarrow>
            go_crun_run_with_pipes env stdin_fd stdout_fd stderr_fd log_fd
              = ([Ev_pipe, Ev_fork, Ev_close rd] @ fst (install_sink log_fd)
                   @ fst (redirect_stdin env wr stdin_fd) @ fst (redirect_stdout env wr stdout_fd)
                   @ [Ev_dup2 stderr_fd 2, Ev_write wr (int32_bytes (byte_order env) e), Ev_exit 1],
                 Exited 1))"
proof -
  note run = child_run [OF assms]
  have a: "stdin_fd < 0 \<longrightarrow>
            go_crun_run_with_pipes env stdin_fd stdout_fd stderr_fd log_fd
              = ([Ev_pipe, Ev_fork, Ev_close rd] @ fst (install_sink log_fd) @ [Ev_open_null]
                   @ (if 0 \<le> open_null_res env
                      then [Ev_dup2 (open_null_res env) 0, Ev_close (open_null_res env)] else [])
                   @ fst (after_stdin env wr stdout_fd stderr_fd),
                 Exited (snd (after_stdin env wr stdout_fd stderr_fd)))"
    by (simp add: run child_branch_def then_do_def install_sink_def redirect_stdin_def
        STDIN_FILENO_def Let_def)
  have b: "0 \<le> stdin_fd \<and> dup2_res env stdin_fd 0 = Some e \<longrightarrow>
            go_crun_run_with_pipes env stdin_fd stdout_fd stderr_fd log_fd
              = ([Ev_pipe, Ev_fork, Ev_close rd] @ fst (install_sink log_fd)
                   @ [Ev_dup2 stdin_fd 0, Ev_write wr (int32_bytes (byte_order env) e), Ev_exit 1],
                 Exited 1)"
    by (simp add: run child_branch_def then_do_def install_sink_def redirect_stdin_def
        dup_onto_def STDIN_FILENO_def Let_def)
  have c: "(stdin_fd < 0 \<or> dup2_res env stdin_fd 0 = None) \<and> 0 \<le> stdout_fd
             \<and> dup2_res env stdout_fd 1 = Some e \<longrightarrow>
            go_crun_run_with_pipes env stdin_fd stdout_fd stderr_fd log_fd
              = ([Ev_pipe, Ev_fork, Ev_close rd] @ fst (install_sink log_fd)
                   @ fst (redirect_stdin env wr stdin_fd)
                   @ [Ev_dup2 stdout_fd 1, Ev_write wr (int32_bytes (byte_order env) e), Ev_exit 1],
                 Exited 1)"
    by (auto simp add: run child_defs)
  have d: "(stdin_fd < 0 \<or> dup2_res env stdin_fd 0 = None)
             \<and> (stdout_fd < 0 \<or> dup2_res env stdout_fd 1 = None) \<and> 0 \<le> stderr_fd
             \<and> dup2_res env stderr_fd 2 = Some e \<longrightarrow>
            go_crun_run_with_pipes env stdin_fd stdout_fd stderr_fd log_fd
              = ([Ev_pipe, Ev_fork, Ev_close rd] @ fst (install_sink log_fd)
                   @ fst (redirect_stdin env wr stdin_fd) @ fst (redirect_stdout env wr stdout_fd)
                   @ [Ev_dup2 stderr_fd 2, Ev_write wr (int32_bytes (byte_order env) e), Ev_exit 1],
                 Exited 1)"
    by (auto simp add: run child_defs)
  from a b c d show ?thesis by blast
qed

text \<open>
  The claim as stated fails on the null-device path: here \<^verbatim>\<open>dup2(5, 0)\<close> of the null device
  fails with errno 4, and the child still writes the handshake value 0, runs the engine and
  ends with the engine's result 0; and when the null device cannot be opened, nothing is
  duplicated onto stdin and the child goes on in the same way.
\<close>

theorem stdin_redirection_counterexample:
  "dup2_res (example_env\<lparr>run_res := (0, None)\<rparr>) 5 0 = Some 4
   \<and> go_crun_run_with_pipes (example_env\<lparr>run_res := (0, None)\<rparr>) (- 1) (- 1) (- 1) (- 1)
       = ([Ev_pipe, Ev_fork, Ev_close 3, Ev_set_output_handler log_write_to_stderr 0, Ev_open_null,
           Ev_dup2 5 0, Ev_close 5, Ev_write 4 [0, 0, 0, 0], Ev_close 4, Ev_container_run, Ev_exit 0],
          Exited 0)
   \<and> go_crun_run_with_pipes (example_env\<lparr>run_res := (0, None), open_null_res := - 1\<rparr>)
         (- 1) (- 1) (- 1) (- 1)
       = ([Ev_pipe, Ev_fork, Ev_close 3, Ev_set_output_handler log_write_to_stderr 0, Ev_open_null,
           Ev_write 4 [0, 0, 0, 0], Ev_close 4, Ev_container_run, Ev_exit 0],
          Exited 0)"
  by (simp add: eval_defs)

theorem stdin_redirection_witness:
  "go_crun_run_with_pipes (example_env\<lparr>open_null_res := - 1\<rparr>) (- 1) 9 (- 1) (- 1)
     = ([Ev_pipe, Ev_fork, Ev_close 3, Ev_set_output_handler log_write_to_stderr 0, Ev_open_null,
         Ev_dup2 9 1, Ev_write 4 [9, 0, 0, 0], Ev_exit 1],
        Exited 1)"
  using stdin_redirection [where env = "example_env\<lparr>open_null_res := - 1\<rparr>" and rd = 3 and wr = 4
      and stdin_fd = "- 1" and stdout_fd = 9 and stderr_fd = "- 1" and log_fd = "- 1" and e = 9]
  by (simp add: eval_defs)


section \<open>Exit-status resolver: retry and decoding\<close>

lemma wait_loop_retry:
  "wait_loop pid (replicate k (Inl EINTR) @ rs) =
     (case wait_loop pid rs of None \<Rightarrow> None | Some (t, r) \<Rightarrow> Some (replicate k (Ev_waitpid pid) @ t, r))"
  by (induction k) (auto split: option.splits)

lemma termsig_le: "uint (st AND 0x7f :: 32 word) \<le> 127"
proof -
  have "st AND 0x7f \<le> 0x7f" by (rule word_and_le1)
  then show ?thesis by (simp add: word_le_def)
qed

lemma sint_termsig_succ:
  "sint (ucast ((st AND 0x7f :: 32 word) + 1) :: 8 word)
     = (if uint (st AND 0x7f) = 127 then - 128 else uint (st AND 0x7f) + 1)"
proof -
  let ?t = "st AND 0x7f :: 32 word"
  have le: "uint ?t \<le> 127" by (rule termsig_le)
  have "uint ?t + uint (1 :: 32 word) < 2 ^ LENGTH(32)"
    using le by simp
  then have "uint (?t + 1) = uint ?t + uint (1 :: 32 word)"
    by (simp only: uint_add_lem)
  then have u: "uint (?t + 1) = uint ?t + 1"
    by simp
  have s: "sint (ucast (?t + 1) :: 8 word) = signed_take_bit 7 (uint (?t + 1))"
    by (simp add: signed_ucast_eq)
  show ?thesis
  proof (cases "uint ?t = 127")
    case True
    then show ?thesis by (simp add: s u)
  next
    case False
    with le have "uint ?t + 1 < 2 ^ 7" by simp
    moreover have "- (2 ^ 7) \<le> uint ?t + 1"
      by (rule order_trans [of _ 0]) simp_all
    ultimately have "signed_take_bit 7 (uint ?t + 1) = uint ?t + 1"
      by (rule signed_take_bit_int_eq_self [rotated])
    with False show ?thesis by (simp add: s u)
  qed
qed

lemma WIFSIGNALED_iff: "WIFSIGNALED st \<longleftrightarrow> WTERMSIG st \<noteq> 0 \<and> WTERMSIG st \<noteq> 0x7f"
proof -
  let ?t = "st AND 0x7f :: 32 word"
  have z: "?t = 0 \<longleftrightarrow> uint ?t = 0" by (simp add: word_uint_eq_iff)
  have m: "?t = 0x7f \<longleftrightarrow> uint ?t = 127" by (simp add: word_uint_eq_iff)
  have "0 \<le> x \<Longrightarrow> 0 < drop_bit 1 (if x = 127 then - 128 else x + 1) \<longleftrightarrow> x \<noteq> 0 \<and> x \<noteq> 127"
    for x :: int
    by (simp add: drop_bit_eq_div) presburger
  from this [of "uint ?t"]
  have "0 < drop_bit 1 (if uint ?t = 127 then - 128 else uint ?t + 1)
          \<longleftrightarrow> uint ?t \<noteq> 0 \<and> uint ?t \<noteq> 127"
    by simp
  then show ?thesis
    unfolding WIFSIGNALED_def WTERMSIG_def z m sint_termsig_succ .
qed

lemma ff00: "(0xff00 :: 32 word) = push_bit 8 (mask 8)"
  by (simp add: mask_eq_exp_minus_1 push_bit_eq_mult)

lemma WEXITSTATUS_eq: "WEXITSTATUS st = ucast (ucast (drop_bit 8 st) :: 8 word)"
  unfolding WEXITSTATUS_def ff00
  by (rule bit_word_eqI) (auto simp add: bit_simps)

lemma sint_ucast_byte: "sint (ucast (b :: 8 word) :: 32 word) = uint b"
proof -
  have "uint b < 2 ^ 8" using uint_lt2p [of b] by simp
  then have "uint b < 2 ^ 31" by simp
  moreover have "- (2 ^ 31) \<le> uint b" by (rule order_trans [of _ 0]) simp_all
  ultimately have "signed_take_bit 31 (uint b) = uint b"
    by (rule signed_take_bit_int_eq_self [rotated])
  then show ?thesis by (simp add: signed_ucast_eq)
qed

lemma WEXITSTATUS_range: "0 \<le> sint (WEXITSTATUS st) \<and> sint (WEXITSTATUS st) \<le> 255"
proof -
  let ?b = "ucast (drop_bit 8 st) :: 8 word"
  have "uint ?b < 2 ^ 8" using uint_lt2p [of ?b] by simp
  then show ?thesis
    unfolding WEXITSTATUS_eq sint_ucast_byte by simp
qed


lemma sint_small: "uint (w :: 32 word) < 2 ^ 31 \<Longrightarrow> sint w = uint w"
proof -
  assume a: "uint w < 2 ^ 31"
  have "- (2 ^ 31) \<le> uint w" by (rule order_trans [of _ 0]) simp_all
  then have "signed_take_bit 31 (uint w) = uint w"
    using a by (rule signed_take_bit_int_eq_self)
  then show ?thesis by (simp add: sint_uint)
qed

lemma sint_signal_code: "sint (128 + WTERMSIG st) = 128 + uint (WTERMSIG st)"
proof -
  let ?t = "st AND 0x7f :: 32 word"
  have le: "uint ?t \<le> 127" by (rule termsig_le)
  then have "uint (128 :: 32 word) + uint ?t < 2 ^ LENGTH(32)" by simp
  then have "uint (128 + ?t) = uint (128 :: 32 word) + uint ?t"
    by (simp only: uint_add_lem)
  then have u: "uint (128 + ?t) = 128 + uint ?t" by simp
  then have "uint (128 + ?t) < 2 ^ 31" using le by simp
  then have "sint (128 + ?t) = uint (128 + ?t)" by (rule sint_small)
  then show ?thesis by (simp add: u WTERMSIG_def)
qed

lemma decode_status_eq:
  "decode_status st =
     (if WTERMSIG st = 0 then uint (ucast (drop_bit 8 st) :: 8 word)
      else if WTERMSIG st = 0x7f then - 1
      else 128 + uint (WTERMSIG st))"
  by (simp add: decode_status_def WIFEXITED_def WIFSIGNALED_iff sint_signal_code
      WEXITSTATUS_eq sint_ucast_byte)

lemma mask7: "(0x7f :: 32 word) = mask 7"
  by (simp add: mask_eq_exp_minus_1)

lemma exit_status: "decode_status (push_bit 8 (ucast (c :: 8 word))) = uint c"
proof -
  have t: "WTERMSIG (push_bit 8 (ucast c)) = 0"
    unfolding WTERMSIG_def mask7 by (rule bit_word_eqI) (auto simp add: bit_simps)
  have "(ucast (drop_bit 8 (push_bit 8 (ucast c :: 32 word))) :: 8 word) = c"
    by (rule bit_word_eqI) (auto simp add: bit_simps)
  then show ?thesis by (simp add: decode_status_eq t)
qed

lemma signal_status:
  assumes "1 \<le> s" and "s \<le> 126"
  shows "decode_status (word_of_nat s OR (if core then 0x80 else 0)) = 128 + int s"
proof -
  let ?st = "word_of_nat s OR (if core then 0x80 else 0) :: 32 word"
  have s7: "take_bit 7 s = s" using assms by (simp add: take_bit_nat_eq_self)
  have "take_bit 7 ?st = take_bit 7 (word_of_nat s :: 32 word) OR take_bit 7 (if core then 0x80 else 0)"
    by (simp only: take_bit_or)
  also have "take_bit 7 (if core then 0x80 else 0 :: 32 word) = 0"
    by (simp add: take_bit_eq_mod)
  also have "take_bit 7 (word_of_nat s :: 32 word) = word_of_nat s"
    by (simp add: s7 flip: of_nat_take_bit) 
  finally have t: "WTERMSIG ?st = word_of_nat s"
    by (simp add: WTERMSIG_def mask7 take_bit_eq_mask)
  have u: "uint (word_of_nat s :: 32 word) = int s"
    unfolding uint_nat unat_of_nat using assms by simp
  have "(word_of_nat s :: 32 word) \<noteq> 0" "(word_of_nat s :: 32 word) \<noteq> 0x7f"
    using assms u by (auto simp add: word_uint_eq_iff)
  then show ?thesis by (simp add: decode_status_eq t u)
qed


lemma wait_loop_success:
  "wait_loop pid (replicate k (Inl EINTR) @ Inr st # rest)
     = Some (replicate (Suc k) (Ev_waitpid pid), Inr st)"
  by (simp add: wait_loop_retry replicate_append_same)

lemma wait_loop_failure:
  "e \<noteq> EINTR \<Longrightarrow>
   wait_loop pid (replicate k (Inl EINTR) @ Inl e # rest)
     = Some (replicate (Suc k) (Ev_waitpid pid), Inl e)"
  by (simp add: wait_loop_retry replicate_append_same)

lemma wait_loop_blocked: "wait_loop pid (replicate k (Inl EINTR)) = None"
  using wait_loop_retry [of pid k "[]"] by simp

text \<open>
  C4. After any number of interrupted waits (\<^verbatim>\<open>waitpid\<close> failing with \<^verbatim>\<open>EINTR\<close>), which are
  repeated and reported nowhere, a wait that reaps the child makes \<^verbatim>\<open>go_crun_wait\<close> return
  0 without an error and with the decoded status: the exit code, which is between 0 and 255,
  for a normal exit; 128 plus the signal number for a death by signal; and -1 for any other
  status. The status word of an exit with code \<open>c\<close> decodes to \<open>c\<close>, and that of a death by
  signal \<open>s\<close>, with or without a core dump, to \<open>128 + s\<close>. A wait that fails with another
  errno makes the call return the error "waitpid failed" with that errno and no exit code.
\<close>

theorem wait_contract:
  "go_crun_wait mk pid (replicate k (Inl EINTR) @ Inr st # rest)
     = Some \<lparr>wait_trace = replicate (Suc k) (Ev_waitpid pid), wait_rc = 0,
             exit_code = Some (decode_status st), wait_err = None\<rparr>
   \<and> (WIFEXITED st \<longrightarrow>
        decode_status st = sint (WEXITSTATUS st) \<and> 0 \<le> decode_status st \<and> decode_status st \<le> 255)
   \<and> (\<not> WIFEXITED st \<and> WIFSIGNALED st \<longrightarrow> decode_status st = 128 + uint (WTERMSIG st))
   \<and> (\<not> WIFEXITED st \<and> \<not> WIFSIGNALED st \<longrightarrow> decode_status st = - 1)
   \<and> decode_status (push_bit 8 (ucast (c :: 8 word))) = uint c
   \<and> (1 \<le> s \<and> s \<le> 126 \<longrightarrow>
        decode_status (word_of_nat s) = 128 + int s
        \<and> decode_status (word_of_nat s OR 0x80) = 128 + int s)
   \<and> (e \<noteq> EINTR \<longrightarrow>
        go_crun_wait mk pid (replicate k (Inl EINTR) @ Inl e # rest)
          = Some \<lparr>wait_trace = replicate (Suc k) (Ev_waitpid pid) @ [Ev_make_error e ''waitpid failed''],
                  wait_rc = mk e, exit_code = None,
                  wait_err = Some \<lparr>status = e, msg = ''waitpid failed''\<rparr>\<rparr>)"
proof -
  have a: "go_crun_wait mk pid (replicate k (Inl EINTR) @ Inr st # rest)
     = Some \<lparr>wait_trace = replicate (Suc k) (Ev_waitpid pid), wait_rc = 0,
             exit_code = Some (decode_status st), wait_err = None\<rparr>"
    using wait_loop_success [of pid k st rest] by (simp add: go_crun_wait_def)
  have b: "WIFEXITED st \<longrightarrow>
        decode_status st = sint (WEXITSTATUS st) \<and> 0 \<le> decode_status st \<and> decode_status st \<le> 255"
    using WEXITSTATUS_range [of st] by (simp add: decode_status_def)
  have c: "\<not> WIFEXITED st \<and> WIFSIGNALED st \<longrightarrow> decode_status st = 128 + uint (WTERMSIG st)"
    by (simp add: decode_status_def sint_signal_code)
  have d: "\<not> WIFEXITED st \<and> \<not> WIFSIGNALED st \<longrightarrow> decode_status st = - 1"
    by (simp add: decode_status_def)
  have f: "1 \<le> s \<and> s \<le> 126 \<longrightarrow>
        decode_status (word_of_nat s) = 128 + int s
        \<and> decode_status (word_of_nat s OR 0x80) = 128 + int s"
    using signal_status [of s False] signal_status [of s True] by simp
  have g: "e \<noteq> EINTR \<longrightarrow>
        go_crun_wait mk pid (replicate k (Inl EINTR) @ Inl e # rest)
          = Some \<lparr>wait_trace = replicate (Suc k) (Ev_waitpid pid) @ [Ev_make_error e ''waitpid failed''],
                  wait_rc = mk e, exit_code = None,
                  wait_err = Some \<lparr>status = e, msg = ''waitpid failed''\<rparr>\<rparr>"
  proof
    assume "e \<noteq> EINTR"
    then have "wait_loop pid (replicate k (Inl EINTR) @ Inl e # rest)
                 = Some (replicate (Suc k) (Ev_waitpid pid), Inl e)"
      by (rule wait_loop_failure)
    then show "go_crun_wait mk pid (replicate k (Inl EINTR) @ Inl e # rest)
          = Some \<lparr>wait_trace = replicate (Suc k) (Ev_waitpid pid) @ [Ev_make_error e ''waitpid failed''],
                  wait_rc = mk e, exit_code = None,
                  wait_err = Some \<lparr>status = e, msg = ''waitpid failed''\<rparr>\<rparr>"
      by (simp add: go_crun_wait_def)
  qed
  show ?thesis by (intro conjI a b c d exit_status f g)
qed

theorem wait_contract_witness:
  "go_crun_wait (\<lambda>s. - s - 1) 4242 [Inl 4, Inl 4, Inr 0x0700]
     = Some \<lparr>wait_trace = [Ev_waitpid 4242, Ev_waitpid 4242, Ev_waitpid 4242], wait_rc = 0,
             exit_code = Some 7, wait_err = None\<rparr>
   \<and> decode_status 9 = 137
   \<and> decode_status 0x89 = 137
   \<and> go_crun_wait (\<lambda>s. - s - 1) 4242 [Inl 4, Inl 4, Inl 10, Inr 0]
     = Some \<lparr>wait_trace = [Ev_waitpid 4242, Ev_waitpid 4242, Ev_waitpid 4242,
                            Ev_make_error 10 ''waitpid failed''],
             wait_rc = - 11, exit_code = None,
             wait_err = Some \<lparr>status = 10, msg = ''waitpid failed''\<rparr>\<rparr>"
  using wait_contract [of "\<lambda>s. - s - 1" 4242 "Suc (Suc 0)" "0x0700" "[]" 7 9 10]
    wait_contract [of "\<lambda>s. - s - 1" 4242 "Suc (Suc 0)" "0x0700" "[Inr 0]" 7 9 10]
  by (simp add: EINTR_def)


section \<open>Log callback slot: a sink is always installed\<close>

lemma apply_op_handler: "output_handler (apply_op x s) \<noteq> None"
  by (cases x)
    (simp_all add: go_crun_set_log_handler_def go_crun_reset_log_handler_def crun_set_output_handler_def)

lemma run_ops_keeps_handler:
  "output_handler s \<noteq> None \<Longrightarrow> output_handler (run_ops xs s) \<noteq> None"
proof (induction xs arbitrary: s)
  case Nil
  then show ?case by simp
next
  case (Cons x xs)
  have "output_handler (apply_op x s) \<noteq> None" by (rule apply_op_handler)
  then have "output_handler (run_ops xs (apply_op x s)) \<noteq> None" by (rule Cons.IH)
  then show ?case by simp
qed

lemma run_ops_handler:
  "xs \<noteq> [] \<or> output_handler s \<noteq> None \<Longrightarrow> output_handler (run_ops xs s) \<noteq> None"
proof (cases xs)
  case Nil
  assume "xs \<noteq> [] \<or> output_handler s \<noteq> None"
  with Nil show ?thesis by simp
next
  case (Cons x ys)
  have "output_handler (run_ops ys (apply_op x s)) \<noteq> None"
    by (rule run_ops_keeps_handler) (rule apply_op_handler)
  with Cons show ?thesis by simp
qed

lemma run_ops_snoc: "run_ops (xs @ [x]) s = apply_op x (run_ops xs s)"
  by (induction xs arbitrary: s) simp_all

lemma emit_log_handler: "output_handler s \<noteq> None \<Longrightarrow> emit_log en s e m v \<noteq> None"
  by (auto simp add: emit_log_def split: handler.splits)

text \<open>
  C8. Registering a handle stores it and installs the callback-routing sink; resetting
  sets the handle to 0 and installs the stream-writing default sink. After any sequence of
  such operations, from a state in which a sink was installed or after at least one
  operation, the installed handler is not NULL and a log call of the engine returns; after
  a sequence that ends with a reset the log call writes through the default sink, and after
  one that ends with the registration of a nonzero handle it reaches that handle's callback.
\<close>

theorem log_sink_always_installed:
  "go_crun_set_log_handler h s
     = s\<lparr>go_log_handle := h, output_handler := Some go_crun_log_callback, output_handler_arg := 0\<rparr>
   \<and> go_crun_reset_log_handler s
     = s\<lparr>go_log_handle := 0, output_handler := Some log_write_to_stderr, output_handler_arg := 0\<rparr>
   \<and> (xs \<noteq> [] \<or> output_handler s \<noteq> None \<longrightarrow>
        output_handler (run_ops xs s) \<noteq> None \<and> emit_log en (run_ops xs s) e m v \<noteq> None)
   \<and> go_log_handle (run_ops (xs @ [Reset]) s) = 0
   \<and> emit_log en (run_ops (xs @ [Reset]) s) e m v = Some [Ev_stderr_log e m v]
   \<and> go_log_handle (run_ops (xs @ [Register h]) s) = h
   \<and> output_handler (run_ops (xs @ [Register h]) s) = Some go_crun_log_callback
   \<and> (h \<noteq> 0 \<longrightarrow> emit_log en (run_ops (xs @ [Register h]) s) e m v = Some [Ev_goLogCallback h e m v])"
proof -
  have a: "go_crun_set_log_handler h s
     = s\<lparr>go_log_handle := h, output_handler := Some go_crun_log_callback, output_handler_arg := 0\<rparr>"
    by (simp add: go_crun_set_log_handler_def crun_set_output_handler_def)
  have b: "go_crun_reset_log_handler s
     = s\<lparr>go_log_handle := 0, output_handler := Some log_write_to_stderr, output_handler_arg := 0\<rparr>"
    by (simp add: go_crun_reset_log_handler_def crun_set_output_handler_def)
  have c: "xs \<noteq> [] \<or> output_handler s \<noteq> None \<longrightarrow>
        output_handler (run_ops xs s) \<noteq> None \<and> emit_log en (run_ops xs s) e m v \<noteq> None"
    using run_ops_handler [of xs s] emit_log_handler [of "run_ops xs s" en e m v] by blast
  have d: "go_log_handle (run_ops (xs @ [Reset]) s) = 0"
    by (simp add: run_ops_snoc go_crun_reset_log_handler_def crun_set_output_handler_def)
  have f: "emit_log en (run_ops (xs @ [Reset]) s) e m v = Some [Ev_stderr_log e m v]"
    by (simp add: run_ops_snoc go_crun_reset_log_handler_def crun_set_output_handler_def emit_log_def)
  have g: "go_log_handle (run_ops (xs @ [Register h]) s) = h"
    by (simp add: run_ops_snoc go_crun_set_log_handler_def crun_set_output_handler_def)
  have i: "output_handler (run_ops (xs @ [Register h]) s) = Some go_crun_log_callback"
    by (simp add: run_ops_snoc go_crun_set_log_handler_def crun_set_output_handler_def)
  have j: "h \<noteq> 0 \<longrightarrow> emit_log en (run_ops (xs @ [Register h]) s) e m v = Some [Ev_goLogCallback h e m v]"
    by (simp add: run_ops_snoc go_crun_set_log_handler_def crun_set_output_handler_def emit_log_def
        go_crun_log_callback_fn_def)
  show ?thesis by (intro conjI a b c d f g i j)
qed

theorem log_sink_always_installed_witness:
  "output_handler (run_ops [Register 5, Reset, Register 0, Reset, Register 6]
      \<lparr>go_log_handle = 0, output_handler = None, output_handler_arg = 0\<rparr>) \<noteq> None
   \<and> emit_log Little (run_ops [Register 5, Reset, Register 0, Reset, Register 6]
      \<lparr>go_log_handle = 0, output_handler = None, output_handler_arg = 0\<rparr>) 2 [0x6f, 0x6b] 1 \<noteq> None
   \<and> emit_log Little (run_ops ([Register 5, Reset, Register 0, Reset] @ [Register 6])
      \<lparr>go_log_handle = 0, output_handler = None, output_handler_arg = 0\<rparr>) 2 [0x6f, 0x6b] 1
       = Some [Ev_goLogCallback 6 2 [0x6f, 0x6b] 1]"
  using log_sink_always_installed [of 6 "\<lparr>go_log_handle = 0, output_handler = None, output_handler_arg = 0\<rparr>"
      "[Register 5, Reset, Register 0, Reset, Register 6]" Little 2 "[0x6f, 0x6b]" 1]
    log_sink_always_installed [of 6 "\<lparr>go_log_handle = 0, output_handler = None, output_handler_arg = 0\<rparr>"
      "[Register 5, Reset, Register 0, Reset]" Little 2 "[0x6f, 0x6b]" 1]
  by simp

section \<open>List marshaling: empty enumeration and allocation failure\<close>

text \<open>
  C9. When the engine's enumeration succeeds (a return code that is not negative) with an
  empty list and \<^verbatim>\<open>calloc\<close> returns memory, \<^verbatim>\<open>go_crun_list\<close> returns 0 with an array of
  no entries and the count 0, and writes no error. When the enumeration succeeds, with any
  list, and \<^verbatim>\<open>calloc\<close> fails, the engine's list is released and after that the error
  "calloc failed" is made and returned, and neither the array nor the count is written.
\<close>

theorem list_empty_and_alloc_failure:
  "(0 \<le> rc \<longrightarrow>
      go_crun_list mk (rc, [], e) None ok
        = \<lparr>list_trace = [Ev_get_containers_list, Ev_free_containers_list], list_rc = 0,
           list_out = Some [], list_out_len = Some 0, list_err = e\<rparr>)
   \<and> (0 \<le> rc \<longrightarrow>
      go_crun_list mk (rc, lst, e) (Some en) ok
        = \<lparr>list_trace = [Ev_get_containers_list, Ev_free_containers_list,
                          Ev_make_error en ''calloc failed''],
           list_rc = mk en, list_out = None, list_out_len = None,
           list_err = Some \<lparr>status = en, msg = ''calloc failed''\<rparr>\<rparr>)"
  by (simp add: go_crun_list_def)

theorem list_empty_and_alloc_failure_witness:
  "go_crun_list (\<lambda>s. - s - 1) (0, [], None) None (\<lambda>i. True)
     = \<lparr>list_trace = [Ev_get_containers_list, Ev_free_containers_list], list_rc = 0,
        list_out = Some [], list_out_len = Some 0, list_err = None\<rparr>
   \<and> go_crun_list (\<lambda>s. - s - 1) (0, [Some ''web'', None, Some ''db''], None) (Some 12) (\<lambda>i. True)
     = \<lparr>list_trace = [Ev_get_containers_list, Ev_free_containers_list,
                       Ev_make_error 12 ''calloc failed''],
        list_rc = - 13, list_out = None, list_out_len = None,
        list_err = Some \<lparr>status = 12, msg = ''calloc failed''\<rparr>\<rparr>"
  using list_empty_and_alloc_failure [of 0 "\<lambda>s. - s - 1" None "\<lambda>i. True" "[Some ''web'', None, Some ''db'']" 12]
  by simp


end
